theory Spec2Isabelle
  imports Complex_Main "HOL-Library.Sublist"
begin

section \<open>The weather tool of \<^verbatim>\<open>solutions/phase-05/tools.py\<close>\<close>

text \<open>
  The file defines one function, \<^verbatim>\<open>get_weather(city)\<close>. It reads the environment
  variable \<^verbatim>\<open>WEATHER_API_KEY\<close>, sends one GET request through \<^verbatim>\<open>httpx\<close>, reads seven
  fields of the JSON answer and renders them into a report; three \<^verbatim>\<open>except\<close> clauses turn
  what the \<^verbatim>\<open>try\<close> block raises into messages.

  Python strings are modelled as \<open>string\<close>, holding the UTF-8 bytes of the text. The
  function only concatenates strings, and concatenation of texts is concatenation of their
  encodings.
\<close>

subsection \<open>Python values\<close>

text \<open>
  What \<^verbatim>\<open>response.json()\<close> returns: \<^verbatim>\<open>None\<close>, a bool, an int, a float, a str, a list or
  a dict with string keys. Floats are kept abstract (type \<open>'f\<close>). A dict is the list of its
  items; a key is looked up with \<open>map_of\<close>.
\<close>

datatype 'f py_value =
    PNone
  | PBool bool
  | PInt int
  | PFloat 'f
  | PStr string
  | PList "'f py_value list"
  | PDict "(string \<times> 'f py_value) list"

subsection \<open>Exceptions\<close>

text \<open>
  The classes of \<^verbatim>\<open>httpx\<close> below \<^verbatim>\<open>httpx.RequestError\<close>. A failed name lookup and a
  refused connection are a \<open>ConnectError\<close>, a timeout is one of the four timeout classes.
\<close>

datatype request_error_class =
    ConnectTimeout | ReadTimeout | WriteTimeout | PoolTimeout
  | ConnectError | ReadError | WriteError | CloseError
  | LocalProtocolError | RemoteProtocolError
  | ProxyError | UnsupportedProtocol
  | DecodingError | TooManyRedirects

text \<open>
  The instances of \<^verbatim>\<open>Exception\<close> that the \<^verbatim>\<open>try\<close> block can raise. In \<^verbatim>\<open>httpx\<close>,
  \<^verbatim>\<open>HTTPStatusError\<close> and \<^verbatim>\<open>RequestError\<close> are sibling subclasses of \<^verbatim>\<open>HTTPError\<close>, so an
  exception is an instance of at most one of them. \<open>HTTPStatusError msg code\<close> carries its
  text and the status code of its response; \<open>KeyError k\<close> carries the missing key.
  \<^verbatim>\<open>KeyboardInterrupt\<close> and \<^verbatim>\<open>SystemExit\<close> are not instances of \<^verbatim>\<open>Exception\<close>; they come
  from the user or the interpreter, not from the environment or the provider, and are not
  modelled.
\<close>

datatype py_exception =
    HTTPStatusError string nat
  | RequestError request_error_class string
  | KeyError string
  | TypeError string
  | ValueError string
  | AttributeError string
  | OtherException string

fun is_HTTPStatusError :: "py_exception \<Rightarrow> bool" where
  "is_HTTPStatusError (HTTPStatusError _ _) = True"
| "is_HTTPStatusError _ = False"

fun is_RequestError :: "py_exception \<Rightarrow> bool" where
  "is_RequestError (RequestError _ _) = True"
| "is_RequestError _ = False"

fun is_Exception :: "py_exception \<Rightarrow> bool" where
  "is_Exception _ = True"

definition apostrophe :: char where
  "apostrophe = CHR 0x27"

definition newline :: char where
  "newline = CHR 0x0A"

text \<open>
  \<^verbatim>\<open>str(e)\<close>, which \<^verbatim>\<open>{e}\<close> in an f-string renders. For a \<^verbatim>\<open>KeyError\<close> it is the
  \<^verbatim>\<open>repr\<close> of the key; the keys of this program are ASCII identifiers, whose \<^verbatim>\<open>repr\<close> is
  the key between apostrophes.
\<close>

fun exception_str :: "py_exception \<Rightarrow> string" where
  "exception_str (HTTPStatusError msg _) = msg"
| "exception_str (RequestError _ msg) = msg"
| "exception_str (KeyError k) = [apostrophe] @ k @ [apostrophe]"
| "exception_str (TypeError msg) = msg"
| "exception_str (ValueError msg) = msg"
| "exception_str (AttributeError msg) = msg"
| "exception_str (OtherException msg) = msg"

text \<open>Sequencing of steps that may raise: the first exception ends the block.\<close>

fun bind_exc :: "py_exception + 'a \<Rightarrow> ('a \<Rightarrow> py_exception + 'b) \<Rightarrow> py_exception + 'b" where
  "bind_exc (Inl e) f = Inl e"
| "bind_exc (Inr v) f = f v"

text \<open>
  \<^verbatim>\<open>try: ... except C1 as e: ... except C2 as e: ...\<close>: the clauses are tried in order,
  the first whose class the exception is an instance of handles it, and an exception no
  clause matches propagates.
\<close>

fun matching_clause ::
  "py_exception \<Rightarrow> ((py_exception \<Rightarrow> bool) \<times> 'h) list \<Rightarrow> 'h option" where
  "matching_clause e [] = None"
| "matching_clause e ((is_instance, handler) # clauses) =
     (if is_instance e then Some handler else matching_clause e clauses)"

fun try_except ::
  "py_exception + 'a \<Rightarrow> ((py_exception \<Rightarrow> bool) \<times> (py_exception \<Rightarrow> py_exception + 'a)) list
   \<Rightarrow> py_exception + 'a" where
  "try_except (Inr v) clauses = Inr v"
| "try_except (Inl e) clauses =
     (case matching_clause e clauses of None \<Rightarrow> Inl e | Some handler \<Rightarrow> handler e)"

subsection \<open>Subscripts and rendering\<close>

text \<open>
  \<^verbatim>\<open>v[k]\<close> with a string \<open>k\<close>: a dict gives the value or raises \<^verbatim>\<open>KeyError\<close>; every other
  value raises \<^verbatim>\<open>TypeError\<close> (the texts are those of CPython 3.11).
\<close>

fun getitem :: "'f py_value \<Rightarrow> string \<Rightarrow> py_exception + 'f py_value" where
  "getitem (PDict items) k =
     (case map_of items k of None \<Rightarrow> Inl (KeyError k) | Some v \<Rightarrow> Inr v)"
| "getitem (PList _) k = Inl (TypeError ''list indices must be integers or slices, not str'')"
| "getitem (PStr _) k = Inl (TypeError (''string indices must be integers, not 'str'' @ [apostrophe]))"
| "getitem PNone k = Inl (TypeError '''NoneType' object is not subscriptable'')"
| "getitem (PBool _) k = Inl (TypeError '''bool' object is not subscriptable'')"
| "getitem (PInt _) k = Inl (TypeError '''int' object is not subscriptable'')"
| "getitem (PFloat _) k = Inl (TypeError '''float' object is not subscriptable'')"

text \<open>\<^verbatim>\<open>v[k1][k2]...\<close>, from left to right.\<close>

fun getitems :: "'f py_value \<Rightarrow> string list \<Rightarrow> py_exception + 'f py_value" where
  "getitems v [] = Inr v"
| "getitems v (k # ks) = bind_exc (getitem v k) (\<lambda>u. getitems u ks)"

text \<open>Decimal digits of a natural number and of an integer, as \<^verbatim>\<open>str\<close> gives them.\<close>

function str_nat :: "nat \<Rightarrow> string" where
  "str_nat n =
     (if n < 10 then [''0123456789'' ! n]
      else str_nat (n div 10) @ [''0123456789'' ! (n mod 10)])"
  by pat_completeness auto
termination
  by (relation "measure (\<lambda>n. n)") auto

declare str_nat.simps [simp del]

definition str_int :: "int \<Rightarrow> string" where
  "str_int i = (if i < 0 then ''-'' @ str_nat (nat (- i)) else str_nat (nat i))"

text \<open>
  What the interpreter and \<^verbatim>\<open>httpx\<close> supply and this file does not define: \<open>repr_of\<close> is
  \<^verbatim>\<open>repr\<close> on floats, lists and dicts; \<open>status_error_text\<close> is the text \<^verbatim>\<open>httpx\<close> gives the
  \<^verbatim>\<open>HTTPStatusError\<close> that \<^verbatim>\<open>raise_for_status\<close> raises for a request and its response.
\<close>

record request =
  http_method :: string
  url :: string
  params :: "(string \<times> string) list"
  timeout :: real

text \<open>
  A response: its status code, and what \<^verbatim>\<open>response.json()\<close> does: \<open>Inl msg\<close> when the body
  is not JSON (a \<^verbatim>\<open>ValueError\<close> with that text), \<open>Inr v\<close> when it parses to \<open>v\<close>.
\<close>

record 'f response =
  status_code :: nat
  json_result :: "string + 'f py_value"

record 'f platform =
  repr_of :: "'f py_value \<Rightarrow> string"
  status_error_text :: "request \<Rightarrow> 'f response \<Rightarrow> string"

text \<open>\<^verbatim>\<open>{v}\<close> in an f-string: \<^verbatim>\<open>str(v)\<close>.\<close>

fun py_str :: "'f platform \<Rightarrow> 'f py_value \<Rightarrow> string" where
  "py_str pf PNone = ''None''"
| "py_str pf (PBool b) = (if b then ''True'' else ''False'')"
| "py_str pf (PInt i) = str_int i"
| "py_str pf (PStr s) = s"
| "py_str pf v = repr_of pf v"

subsection \<open>The process and the network\<close>

text \<open>
  The state a call can see or change: the environment variables, and the requests sent so
  far, oldest first.
\<close>

record world =
  environ :: "string \<rightharpoonup> string"
  sent :: "request list"

definition os_getenv :: "world \<Rightarrow> string \<Rightarrow> string option" where
  "os_getenv w name = environ w name"

text \<open>
  \<^verbatim>\<open>httpx.get\<close>: the request goes out, and the provider behaviour \<open>net\<close> decides whether the
  call raises or returns a response.
\<close>

definition httpx_get ::
  "(request \<Rightarrow> py_exception + 'f response) \<Rightarrow> request \<Rightarrow> world
   \<Rightarrow> (py_exception + 'f response) \<times> world" where
  "httpx_get net req w = (net req, w\<lparr>sent := sent w @ [req]\<rparr>)"

definition is_success :: "'f response \<Rightarrow> bool" where
  "is_success r = (200 \<le> status_code r \<and> status_code r \<le> 299)"

definition raise_for_status ::
  "'f platform \<Rightarrow> request \<Rightarrow> 'f response \<Rightarrow> py_exception + unit" where
  "raise_for_status pf req r =
     (if is_success r then Inr ()
      else Inl (HTTPStatusError (status_error_text pf req r) (status_code r)))"

definition response_json :: "'f response \<Rightarrow> py_exception + 'f py_value" where
  "response_json r = (case json_result r of Inl msg \<Rightarrow> Inl (ValueError msg) | Inr v \<Rightarrow> Inr v)"

subsection \<open>\<^verbatim>\<open>get_weather\<close>\<close>

definition placeholder_key :: string where
  "placeholder_key = ''your_weather_api_key_here''"

definition config_error :: string where
  "config_error =
     ''Error: Weather API key not configured. Please add WEATHER_API_KEY to your .env file.''"

definition weather_request :: "string \<Rightarrow> string \<Rightarrow> request" where
  "weather_request api_key city =
     \<lparr>http_method = ''GET'',
      url = ''http://api.weatherapi.com/v1/current.json'',
      params = [(''key'', api_key), (''q'', city), (''aqi'', ''no'')],
      timeout = 10\<rparr>"

text \<open>The symbols of the report, as UTF-8: thermometer, cloud, droplet, dash, degree.\<close>

definition thermometer :: string where
  "thermometer = [CHR 0xF0, CHR 0x9F, CHR 0x8C, CHR 0xA1, CHR 0xEF, CHR 0xB8, CHR 0x8F]"

definition cloud :: string where
  "cloud = [CHR 0xE2, CHR 0x98, CHR 0x81, CHR 0xEF, CHR 0xB8, CHR 0x8F]"

definition droplet :: string where
  "droplet = [CHR 0xF0, CHR 0x9F, CHR 0x92, CHR 0xA7]"

definition dash :: string where
  "dash = [CHR 0xF0, CHR 0x9F, CHR 0x92, CHR 0xA8]"

definition degree :: string where
  "degree = [CHR 0xC2, CHR 0xB0]"

definition weather_report ::
  "string \<Rightarrow> string \<Rightarrow> string \<Rightarrow> string \<Rightarrow> string \<Rightarrow> string \<Rightarrow> string \<Rightarrow> string" where
  "weather_report location country temp_c temp_f condition humidity wind_kph =
     ''Weather for '' @ location @ '', '' @ country @ '':'' @ [newline]
     @ thermometer @ '' Temperature: '' @ temp_c @ degree @ ''C ('' @ temp_f @ degree @ ''F)''
     @ [newline]
     @ cloud @ '' Condition: '' @ condition @ [newline]
     @ droplet @ '' Humidity: '' @ humidity @ ''%'' @ [newline]
     @ dash @ '' Wind: '' @ wind_kph @ '' km/h''"

text \<open>Lines 56 to 71: the fields are read in the order of the source, then rendered.\<close>

definition format_weather :: "'f platform \<Rightarrow> 'f py_value \<Rightarrow> py_exception + string" where
  "format_weather pf data =
     bind_exc (getitems data [''location'', ''name'']) (\<lambda>location.
     bind_exc (getitems data [''location'', ''country'']) (\<lambda>country.
     bind_exc (getitems data [''current'', ''temp_c'']) (\<lambda>temp_c.
     bind_exc (getitems data [''current'', ''temp_f'']) (\<lambda>temp_f.
     bind_exc (getitems data [''current'', ''condition'', ''text'']) (\<lambda>condition.
     bind_exc (getitems data [''current'', ''humidity'']) (\<lambda>humidity.
     bind_exc (getitems data [''current'', ''wind_kph'']) (\<lambda>wind_kph.
       Inr (weather_report (py_str pf location) (py_str pf country) (py_str pf temp_c)
              (py_str pf temp_f) (py_str pf condition) (py_str pf humidity)
              (py_str pf wind_kph)))))))))"

text \<open>The body of the \<^verbatim>\<open>try\<close> block, lines 49 to 71.\<close>

definition try_block ::
  "'f platform \<Rightarrow> (request \<Rightarrow> py_exception + 'f response) \<Rightarrow> string \<Rightarrow> string \<Rightarrow> world
   \<Rightarrow> (py_exception + string) \<times> world" where
  "try_block pf net api_key city w =
     (let req = weather_request api_key city;
          (got, w') = httpx_get net req w
      in (bind_exc got (\<lambda>response.
          bind_exc (raise_for_status pf req response) (\<lambda>_.
          bind_exc (response_json response) (\<lambda>data.
            format_weather pf data))), w'))"

text \<open>The handlers, lines 73 to 80.\<close>

definition not_found_message :: "string \<Rightarrow> string" where
  "not_found_message city =
     ''Sorry, I couldn't find weather data for '' @ [apostrophe] @ city @ [apostrophe]
     @ ''. Please check the city name.''"

fun on_http_status_error :: "string \<Rightarrow> py_exception \<Rightarrow> py_exception + string" where
  "on_http_status_error city (HTTPStatusError msg code) =
     (if code = 400 then Inr (not_found_message city)
      else Inr (''Error fetching weather: '' @ msg))"
| "on_http_status_error city e =
     Inl (AttributeError (''object has no attribute 'response'' @ [apostrophe]))"

definition on_request_error :: "py_exception \<Rightarrow> py_exception + string" where
  "on_request_error e =
     Inr (''Network error: Could not connect to weather service. '' @ exception_str e)"

definition on_exception :: "py_exception \<Rightarrow> py_exception + string" where
  "on_exception e = Inr (''Unexpected error: '' @ exception_str e)"

definition except_clauses ::
  "string \<Rightarrow> ((py_exception \<Rightarrow> bool) \<times> (py_exception \<Rightarrow> py_exception + string)) list" where
  "except_clauses city =
     [(is_HTTPStatusError, on_http_status_error city),
      (is_RequestError, on_request_error),
      (is_Exception, on_exception)]"

text \<open>
  \<^verbatim>\<open>get_weather\<close>, lines 43 to 80. \<^verbatim>\<open>not api_key\<close> holds of \<^verbatim>\<open>None\<close> and of the empty
  string. The result is \<open>Inr\<close> of the returned string, or \<open>Inl\<close> of an exception that
  reaches the caller; the second component is the world after the call.
\<close>

definition get_weather ::
  "'f platform \<Rightarrow> (request \<Rightarrow> py_exception + 'f response) \<Rightarrow> world \<Rightarrow> string
   \<Rightarrow> (py_exception + string) \<times> world" where
  "get_weather pf net w city =
     (case os_getenv w ''WEATHER_API_KEY'' of
        None \<Rightarrow> (Inr config_error, w)
      | Some api_key \<Rightarrow>
          if api_key = [] \<or> api_key = placeholder_key then (Inr config_error, w)
          else (let (r, w') = try_block pf net api_key city w
                in (try_except r (except_clauses city), w')))"

text \<open>
  The order of the clauses in the words of the specification: the transport failure first,
  then the HTTP status, then everything else.
\<close>

definition spec_ordered_clauses ::
  "string \<Rightarrow> ((py_exception \<Rightarrow> bool) \<times> (py_exception \<Rightarrow> py_exception + string)) list" where
  "spec_ordered_clauses city =
     [(is_RequestError, on_request_error),
      (is_HTTPStatusError, on_http_status_error city),
      (is_Exception, on_exception)]"

text \<open>
  Calls made one after the other, each with its own provider behaviour and city; the
  world is handed from each call to the next.
\<close>

fun get_weather_calls ::
  "'f platform \<Rightarrow> ((request \<Rightarrow> py_exception + 'f response) \<times> string) list \<Rightarrow> world \<Rightarrow> world" where
  "get_weather_calls pf [] w = w"
| "get_weather_calls pf ((net, city) # calls) w =
     get_weather_calls pf calls (snd (get_weather pf net w city))"

text \<open>The subscripts of lines 59 to 65, in the order in which they are evaluated.\<close>

definition expected_fields :: "string list list" where
  "expected_fields =
     [[''location'', ''name''], [''location'', ''country''], [''current'', ''temp_c''],
      [''current'', ''temp_f''], [''current'', ''condition'', ''text''],
      [''current'', ''humidity''], [''current'', ''wind_kph'']]"

section \<open>Properties\<close>

subsection \<open>Auxiliary facts\<close>

lemma bind_exc_Inr_iff:
  "bind_exc m f = Inr s \<longleftrightarrow> (\<exists>v. m = Inr v \<and> f v = Inr s)"
  by (cases m) simp_all

lemma bind_exc_Inl_iff:
  "bind_exc m f = Inl e \<longleftrightarrow> m = Inl e \<or> (\<exists>v. m = Inr v \<and> f v = Inl e)"
  by (cases m) simp_all

lemma except_clauses_handle:
  "\<exists>s. try_except (Inl e) (except_clauses city) = Inr s"
  by (cases e) (simp_all add: except_clauses_def on_request_error_def on_exception_def)

lemma try_block_sent:
  "snd (try_block pf net k city w) = w\<lparr>sent := sent w @ [weather_request k city]\<rparr>"
  by (simp add: try_block_def httpx_get_def Let_def)

lemma get_weather_configured:
  assumes "environ w ''WEATHER_API_KEY'' = Some k" "k \<noteq> []" "k \<noteq> placeholder_key"
  shows "get_weather pf net w city =
           (try_except (fst (try_block pf net k city w)) (except_clauses city),
            w\<lparr>sent := sent w @ [weather_request k city]\<rparr>)"
  using assms try_block_sent [of pf net k city w]
  by (simp add: get_weather_def os_getenv_def split_beta Let_def)

lemma try_block_result:
  "fst (try_block pf net k city w) =
     bind_exc (net (weather_request k city)) (\<lambda>response.
     bind_exc (raise_for_status pf (weather_request k city) response) (\<lambda>_.
     bind_exc (response_json response) (\<lambda>data. format_weather pf data)))"
  by (simp add: try_block_def httpx_get_def Let_def)

lemma get_weather_result:
  assumes "environ w ''WEATHER_API_KEY'' = Some k" "k \<noteq> []" "k \<noteq> placeholder_key"
  shows "fst (get_weather pf net w city) =
           try_except (bind_exc (net (weather_request k city)) (\<lambda>response.
             bind_exc (raise_for_status pf (weather_request k city) response) (\<lambda>_.
             bind_exc (response_json response) (\<lambda>data. format_weather pf data))))
             (except_clauses city)"
  using get_weather_configured [OF assms, of pf net city] try_block_result [of pf net k city w]
  by simp

lemma getitem_raises:
  "getitem v k = Inl e \<Longrightarrow> (\<exists>k'. e = KeyError k') \<or> (\<exists>m. e = TypeError m)"
  by (cases v) (auto split: option.splits)

lemma getitems_raises:
  "getitems v ks = Inl e \<Longrightarrow> (\<exists>k'. e = KeyError k') \<or> (\<exists>m. e = TypeError m)"
proof (induction ks arbitrary: v)
  case Nil
  then show ?case by simp
next
  case (Cons k ks)
  show ?case
  proof (cases "getitem v k")
    case (Inl e')
    with Cons.prems have "getitem v k = Inl e" by simp
    then show ?thesis by (rule getitem_raises)
  next
    case (Inr u)
    with Cons.prems have "getitems u ks = Inl e" by simp
    then show ?thesis by (rule Cons.IH)
  qed
qed

lemma format_weather_Inl:
  "format_weather pf data = Inl e \<Longrightarrow> \<exists>path \<in> set expected_fields. getitems data path = Inl e"
  unfolding format_weather_def expected_fields_def bind_exc_Inl_iff
  by (elim disjE exE conjE) simp_all

lemma format_weather_Inr:
  "format_weather pf data = Inr s \<Longrightarrow> path \<in> set expected_fields \<Longrightarrow> \<exists>v. getitems data path = Inr v"
  unfolding format_weather_def expected_fields_def bind_exc_Inr_iff
  by (elim exE conjE) auto

lemma getitems_dict2:
  "map_of body a = Some (PDict inner) \<Longrightarrow> map_of inner b = Some v
   \<Longrightarrow> getitems (PDict body) [a, b] = Inr v"
  by simp

lemma getitems_dict3:
  "map_of body a = Some (PDict mid) \<Longrightarrow> map_of mid b = Some (PDict inner)
   \<Longrightarrow> map_of inner c = Some v \<Longrightarrow> getitems (PDict body) [a, b, c] = Inr v"
  by simp

lemma unexpected_handled:
  assumes "(\<exists>k'. e = KeyError k') \<or> (\<exists>m. e = TypeError m) \<or> (\<exists>m. e = ValueError m)"
  shows "try_except (Inl e) (except_clauses city) = Inr (''Unexpected error: '' @ exception_str e)"
  using assms by (auto simp add: except_clauses_def on_exception_def)

lemma get_weather_environ:
  "environ (snd (get_weather pf net w city)) = environ w"
proof (cases "os_getenv w ''WEATHER_API_KEY''")
  case None
  then show ?thesis by (simp add: get_weather_def)
next
  case (Some k)
  then show ?thesis
    using try_block_sent [of pf net k city w]
    by (simp add: get_weather_def split_beta)
qed

lemma get_weather_calls_environ:
  "environ (get_weather_calls pf calls w) = environ w"
proof (induction calls arbitrary: w)
  case Nil
  then show ?case by simp
next
  case (Cons c calls)
  obtain net city where c: "c = (net, city)" by (cases c)
  show ?case using Cons.IH [of "snd (get_weather pf net w city)"] get_weather_environ [of pf net w city]
    by (simp add: c)
qed

lemma get_weather_result_cong:
  assumes "environ w1 ''WEATHER_API_KEY'' = environ w2 ''WEATHER_API_KEY''"
    and "\<And>k. net1 (weather_request k city) = net2 (weather_request k city)"
  shows "fst (get_weather pf net1 w1 city) = fst (get_weather pf net2 w2 city)"
proof (cases "environ w1 ''WEATHER_API_KEY''")
  case None
  with assms(1) show ?thesis by (simp add: get_weather_def os_getenv_def)
next
  case (Some k)
  with assms(1) have k2: "environ w2 ''WEATHER_API_KEY'' = Some k" by simp
  show ?thesis
    using Some k2 assms(2) [of k] try_block_result [of pf net1 k city w1]
      try_block_result [of pf net2 k city w2]
    by (simp add: get_weather_def os_getenv_def split_beta)
qed

subsection \<open>The claims\<close>

text \<open>
  Claim C1. For every city, every environment and every provider behaviour,
  \<^verbatim>\<open>get_weather\<close> returns a string: whatever the \<^verbatim>\<open>try\<close> block raises is handled by one
  of the three clauses, and no exception reaches the caller.
\<close>

theorem get_weather_returns_string:
  "\<exists>s. fst (get_weather pf net w city) = Inr s"
proof (cases "os_getenv w ''WEATHER_API_KEY''")
  case None
  then show ?thesis by (simp add: get_weather_def)
next
  case (Some k)
  show ?thesis
  proof (cases "k = [] \<or> k = placeholder_key")
    case True
    with Some show ?thesis by (auto simp add: get_weather_def)
  next
    case False
    obtain r w' where tb: "try_block pf net k city w = (r, w')"
      by (cases "try_block pf net k city w")
    have "\<exists>s. try_except r (except_clauses city) = Inr s"
    proof (cases r)
      case (Inl e)
      then show ?thesis using except_clauses_handle [of e city] by simp
    next
      case (Inr s)
      then show ?thesis by simp
    qed
    with Some False tb show ?thesis by (simp add: get_weather_def)
  qed
qed

text \<open>
  Claim C2. When \<^verbatim>\<open>WEATHER_API_KEY\<close> is unset or is the placeholder
  \<^verbatim>\<open>your_weather_api_key_here\<close>, the result is the fixed configuration-error string for
  every city, and no request is sent.
\<close>

theorem get_weather_unconfigured:
  assumes "environ w ''WEATHER_API_KEY'' = None
           \<or> environ w ''WEATHER_API_KEY'' = Some ''your_weather_api_key_here''"
  shows "fst (get_weather pf net w city) =
           Inr ''Error: Weather API key not configured. Please add WEATHER_API_KEY to your .env file.''
         \<and> sent (snd (get_weather pf net w city)) = sent w"
  using assms by (auto simp add: get_weather_def os_getenv_def placeholder_key_def config_error_def)

text \<open>The placeholder key, with a provider that would fail if it were asked.\<close>

theorem get_weather_unconfigured_witness:
  "fst (get_weather \<lparr>repr_of = (\<lambda>v::unit py_value. ''''), status_error_text = (\<lambda>q r. '''')\<rparr>
          (\<lambda>q. Inl (OtherException ''unreachable''))
          \<lparr>environ = [''WEATHER_API_KEY'' \<mapsto> ''your_weather_api_key_here''], sent = []\<rparr>
          ''Paris'') =
     Inr ''Error: Weather API key not configured. Please add WEATHER_API_KEY to your .env file.''
   \<and> sent (snd (get_weather \<lparr>repr_of = (\<lambda>v::unit py_value. ''''), status_error_text = (\<lambda>q r. '''')\<rparr>
          (\<lambda>q. Inl (OtherException ''unreachable''))
          \<lparr>environ = [''WEATHER_API_KEY'' \<mapsto> ''your_weather_api_key_here''], sent = []\<rparr>
          ''Paris'')) = []"
  using get_weather_unconfigured
    [of "\<lparr>environ = [''WEATHER_API_KEY'' \<mapsto> ''your_weather_api_key_here''], sent = []\<rparr>"
        "\<lparr>repr_of = (\<lambda>v::unit py_value. ''''), status_error_text = (\<lambda>q r. '''')\<rparr>"
        "\<lambda>q. Inl (OtherException ''unreachable'')" "''Paris''"]
  by simp

text \<open>
  Claim C10. When \<^verbatim>\<open>WEATHER_API_KEY\<close> is set to the empty string, the result is the
  configuration-error string as well, and no request is sent: \<^verbatim>\<open>not api_key\<close> holds of
  the empty string.
\<close>

theorem get_weather_empty_key:
  assumes "environ w ''WEATHER_API_KEY'' = Some ''''"
  shows "fst (get_weather pf net w city) =
           Inr ''Error: Weather API key not configured. Please add WEATHER_API_KEY to your .env file.''
         \<and> sent (snd (get_weather pf net w city)) = sent w"
  using assms by (simp add: get_weather_def os_getenv_def config_error_def)

text \<open>An environment that holds the variable with the empty value.\<close>

theorem get_weather_empty_key_witness:
  "fst (get_weather \<lparr>repr_of = (\<lambda>v::unit py_value. ''''), status_error_text = (\<lambda>q r. '''')\<rparr>
          (\<lambda>q. Inl (OtherException ''unreachable''))
          \<lparr>environ = [''WEATHER_API_KEY'' \<mapsto> ''''], sent = []\<rparr>
          ''Tokyo'') =
     Inr ''Error: Weather API key not configured. Please add WEATHER_API_KEY to your .env file.''
   \<and> sent (snd (get_weather \<lparr>repr_of = (\<lambda>v::unit py_value. ''''), status_error_text = (\<lambda>q r. '''')\<rparr>
          (\<lambda>q. Inl (OtherException ''unreachable''))
          \<lparr>environ = [''WEATHER_API_KEY'' \<mapsto> ''''], sent = []\<rparr>
          ''Tokyo'')) = []"
  using get_weather_empty_key
    [of "\<lparr>environ = [''WEATHER_API_KEY'' \<mapsto> ''''], sent = []\<rparr>"
        "\<lparr>repr_of = (\<lambda>v::unit py_value. ''''), status_error_text = (\<lambda>q r. '''')\<rparr>"
        "\<lambda>q. Inl (OtherException ''unreachable'')" "''Tokyo''"]
  by simp

text \<open>
  Claim C7. With a configured key, a call sends exactly one request: a GET to
  \<^verbatim>\<open>http://api.weatherapi.com/v1/current.json\<close> with the parameters \<^verbatim>\<open>key\<close> (the key
  read), \<^verbatim>\<open>q\<close> (the city) and \<^verbatim>\<open>aqi=no\<close>, and a timeout of 10 seconds. The calls of the
  model run one after the other, which is what synchronous means here.
\<close>

theorem get_weather_sends_one_request:
  assumes "environ w ''WEATHER_API_KEY'' = Some k" "k \<noteq> ''''" "k \<noteq> ''your_weather_api_key_here''"
  shows "sent (snd (get_weather pf net w city)) =
           sent w @ [\<lparr>http_method = ''GET'',
                      url = ''http://api.weatherapi.com/v1/current.json'',
                      params = [(''key'', k), (''q'', city), (''aqi'', ''no'')],
                      timeout = 10\<rparr>]"
  using assms get_weather_configured [of w k pf net city]
  by (simp add: placeholder_key_def weather_request_def)

text \<open>The key \<^verbatim>\<open>abc123\<close> and the city Paris, on a connection that is refused.\<close>

theorem get_weather_sends_one_request_witness:
  "sent (snd (get_weather \<lparr>repr_of = (\<lambda>v::unit py_value. ''''), status_error_text = (\<lambda>q r. '''')\<rparr>
          (\<lambda>q. Inl (RequestError ConnectError ''refused''))
          \<lparr>environ = [''WEATHER_API_KEY'' \<mapsto> ''abc123''], sent = []\<rparr>
          ''Paris'')) =
     [\<lparr>http_method = ''GET'',
       url = ''http://api.weatherapi.com/v1/current.json'',
       params = [(''key'', ''abc123''), (''q'', ''Paris''), (''aqi'', ''no'')],
       timeout = 10\<rparr>]"
  using get_weather_sends_one_request
    [of "\<lparr>environ = [''WEATHER_API_KEY'' \<mapsto> ''abc123''], sent = []\<rparr>" "''abc123''"
        "\<lparr>repr_of = (\<lambda>v::unit py_value. ''''), status_error_text = (\<lambda>q r. '''')\<rparr>"
        "\<lambda>q. Inl (RequestError ConnectError ''refused'')" "''Paris''"]
  by simp

text \<open>
  Claim C8. The clauses in the order of the source (\<^verbatim>\<open>HTTPStatusError\<close>, then
  \<^verbatim>\<open>RequestError\<close>, then \<^verbatim>\<open>Exception\<close>) and in the order of the specification (transport
  failure, then HTTP status, then everything else) select the same handler for every
  exception, and so turn every outcome of the \<^verbatim>\<open>try\<close> block into the same result.
\<close>

theorem except_order_equivalent:
  "matching_clause e (except_clauses city) = matching_clause e (spec_ordered_clauses city)
   \<and> try_except r (except_clauses city) = try_except r (spec_ordered_clauses city)"
proof -
  have m: "matching_clause e' (except_clauses city) = matching_clause e' (spec_ordered_clauses city)"
    for e'
    by (cases e') (simp_all add: except_clauses_def spec_ordered_clauses_def)
  show ?thesis
  proof (cases r)
    case (Inl e')
    then show ?thesis using m [of e] m [of e'] by simp
  next
    case (Inr s)
    then show ?thesis using m [of e] by simp
  qed
qed

text \<open>
  Claim C3. With a configured key, a response with a 2xx status whose JSON body holds the
  expected fields gives the fixed five-line report with the \<^verbatim>\<open>str\<close> of exactly those
  field values in their places: location and country, the temperature in both units, the
  condition, the humidity and the wind.
\<close>

theorem get_weather_success:
  assumes key: "environ w ''WEATHER_API_KEY'' = Some k" "k \<noteq> ''''"
      "k \<noteq> ''your_weather_api_key_here''"
    and resp: "net (weather_request k city) = Inr r" "200 \<le> status_code r" "status_code r \<le> 299"
      "json_result r = Inr (PDict body)"
    and loc: "map_of body ''location'' = Some (PDict loc)"
      "map_of loc ''name'' = Some name" "map_of loc ''country'' = Some country"
    and cur: "map_of body ''current'' = Some (PDict cur)"
      "map_of cur ''temp_c'' = Some temp_c" "map_of cur ''temp_f'' = Some temp_f"
      "map_of cur ''condition'' = Some (PDict cond)" "map_of cond ''text'' = Some text"
      "map_of cur ''humidity'' = Some humidity" "map_of cur ''wind_kph'' = Some wind_kph"
  shows "fst (get_weather pf net w city) =
           Inr (''Weather for '' @ py_str pf name @ '', '' @ py_str pf country @ '':''
                @ [newline] @ thermometer @ '' Temperature: '' @ py_str pf temp_c @ degree
                @ ''C ('' @ py_str pf temp_f @ degree @ ''F)''
                @ [newline] @ cloud @ '' Condition: '' @ py_str pf text
                @ [newline] @ droplet @ '' Humidity: '' @ py_str pf humidity @ ''%''
                @ [newline] @ dash @ '' Wind: '' @ py_str pf wind_kph @ '' km/h'')"
proof -
  have k: "k \<noteq> placeholder_key" using key(3) by (simp add: placeholder_key_def)
  have f: "format_weather pf (PDict body) =
             Inr (weather_report (py_str pf name) (py_str pf country) (py_str pf temp_c)
                    (py_str pf temp_f) (py_str pf text) (py_str pf humidity)
                    (py_str pf wind_kph))"
    unfolding format_weather_def
    using getitems_dict2 [OF loc(1) loc(2)] getitems_dict2 [OF loc(1) loc(3)]
      getitems_dict2 [OF cur(1) cur(2)] getitems_dict2 [OF cur(1) cur(3)]
      getitems_dict3 [OF cur(1) cur(4) cur(5)]
      getitems_dict2 [OF cur(1) cur(6)] getitems_dict2 [OF cur(1) cur(7)]
    by (simp del: getitems.simps)
  have "fst (get_weather pf net w city) = format_weather pf (PDict body)"
    using get_weather_result [OF key(1) key(2) k, of pf net city] resp f
    by (simp add: raise_for_status_def is_success_def response_json_def)
  with f show ?thesis by (simp add: weather_report_def)
qed

text \<open>
  The payload of the specification: Paris, 15 and 59 degrees, partly cloudy, humidity 70,
  wind 12; the report shows the city and the five values.
\<close>

theorem get_weather_success_witness:
  "fst (get_weather \<lparr>repr_of = (\<lambda>v::unit py_value. ''''), status_error_text = (\<lambda>q r. '''')\<rparr>
          (\<lambda>q. Inr \<lparr>status_code = 200, json_result = Inr (PDict
             [(''location'', PDict [(''name'', PStr ''Paris''), (''country'', PStr ''France'')]),
              (''current'', PDict [(''temp_c'', PInt 15), (''temp_f'', PInt 59),
                 (''condition'', PDict [(''text'', PStr ''Partly cloudy'')]),
                 (''humidity'', PInt 70), (''wind_kph'', PInt 12)])])\<rparr>)
          \<lparr>environ = [''WEATHER_API_KEY'' \<mapsto> ''abc123''], sent = []\<rparr>
          ''Paris'') =
     Inr (''Weather for Paris, France:'' @ [CHR 0x0A]
          @ [CHR 0xF0, CHR 0x9F, CHR 0x8C, CHR 0xA1, CHR 0xEF, CHR 0xB8, CHR 0x8F]
          @ '' Temperature: 15'' @ [CHR 0xC2, CHR 0xB0] @ ''C (59'' @ [CHR 0xC2, CHR 0xB0] @ ''F)''
          @ [CHR 0x0A] @ [CHR 0xE2, CHR 0x98, CHR 0x81, CHR 0xEF, CHR 0xB8, CHR 0x8F]
          @ '' Condition: Partly cloudy''
          @ [CHR 0x0A] @ [CHR 0xF0, CHR 0x9F, CHR 0x92, CHR 0xA7] @ '' Humidity: 70%''
          @ [CHR 0x0A] @ [CHR 0xF0, CHR 0x9F, CHR 0x92, CHR 0xA8] @ '' Wind: 12 km/h'')"
  using get_weather_success
    [of "\<lparr>environ = [''WEATHER_API_KEY'' \<mapsto> ''abc123''], sent = []\<rparr>" "''abc123''"
        "\<lambda>q. Inr \<lparr>status_code = 200, json_result = Inr (PDict
             [(''location'', PDict [(''name'', PStr ''Paris''), (''country'', PStr ''France'')]),
              (''current'', PDict [(''temp_c'', PInt 15), (''temp_f'', PInt 59),
                 (''condition'', PDict [(''text'', PStr ''Partly cloudy'')]),
                 (''humidity'', PInt 70), (''wind_kph'', PInt 12)])])\<rparr>"
        "''Paris''"
        "\<lparr>status_code = 200, json_result = Inr (PDict
             [(''location'', PDict [(''name'', PStr ''Paris''), (''country'', PStr ''France'')]),
              (''current'', PDict [(''temp_c'', PInt 15), (''temp_f'', PInt 59),
                 (''condition'', PDict [(''text'', PStr ''Partly cloudy'')]),
                 (''humidity'', PInt 70), (''wind_kph'', PInt 12)])])\<rparr>"
        "[(''location'', PDict [(''name'', PStr ''Paris''), (''country'', PStr ''France'')]),
              (''current'', PDict [(''temp_c'', PInt 15), (''temp_f'', PInt 59),
                 (''condition'', PDict [(''text'', PStr ''Partly cloudy'')]),
                 (''humidity'', PInt 70), (''wind_kph'', PInt 12)])]"
        "[(''name'', PStr ''Paris''), (''country'', PStr ''France'')]"
        "PStr ''Paris''" "PStr ''France''"
        "[(''temp_c'', PInt 15), (''temp_f'', PInt 59),
                 (''condition'', PDict [(''text'', PStr ''Partly cloudy'')]),
                 (''humidity'', PInt 70), (''wind_kph'', PInt 12)]"
        "PInt 15" "PInt 59" "[(''text'', PStr ''Partly cloudy'')]" "PStr ''Partly cloudy''"
        "PInt 70" "PInt 12"
        "\<lparr>repr_of = (\<lambda>v::unit py_value. ''''), status_error_text = (\<lambda>q r. '''')\<rparr>"]
  by (simp add: str_int_def str_nat.simps newline_def thermometer_def degree_def cloud_def
        droplet_def dash_def)

text \<open>
  Claim C4. With a configured key, a response with status 400 gives a message that names
  the requested city and says that no weather data could be found for it; any other status
  outside 200 to 299 gives \<^verbatim>\<open>Error fetching weather:\<close> followed by the text of the
  status error, which differs from the message for 400 whatever the city.
\<close>

theorem get_weather_http_error:
  assumes key: "environ w ''WEATHER_API_KEY'' = Some k" "k \<noteq> ''''"
      "k \<noteq> ''your_weather_api_key_here''"
    and resp: "net (weather_request k city) = Inr r"
      "status_code r < 200 \<or> 299 < status_code r"
  shows "fst (get_weather pf net w city) =
           (if status_code r = 400
            then Inr (''Sorry, I couldn't find weather data for '' @ [apostrophe] @ city
                      @ [apostrophe] @ ''. Please check the city name.'')
            else Inr (''Error fetching weather: '' @ status_error_text pf (weather_request k city) r))
         \<and> sublist city (''Sorry, I couldn't find weather data for '' @ [apostrophe] @ city
                      @ [apostrophe] @ ''. Please check the city name.'')
         \<and> sublist (status_error_text pf (weather_request k city) r)
              (''Error fetching weather: '' @ status_error_text pf (weather_request k city) r)
         \<and> ''Error fetching weather: '' @ status_error_text pf (weather_request k city) r
             \<noteq> ''Sorry, I couldn't find weather data for '' @ [apostrophe] @ city'
                      @ [apostrophe] @ ''. Please check the city name.''"
proof -
  have k: "k \<noteq> placeholder_key" using key(3) by (simp add: placeholder_key_def)
  have "fst (get_weather pf net w city) =
          try_except (Inl (HTTPStatusError (status_error_text pf (weather_request k city) r)
                        (status_code r))) (except_clauses city)"
    using get_weather_result [OF key(1) key(2) k, of pf net city] resp
    by (auto simp add: raise_for_status_def is_success_def)
  then have "fst (get_weather pf net w city) =
           (if status_code r = 400
            then Inr (''Sorry, I couldn't find weather data for '' @ [apostrophe] @ city
                      @ [apostrophe] @ ''. Please check the city name.'')
            else Inr (''Error fetching weather: '' @ status_error_text pf (weather_request k city) r))"
    by (simp add: except_clauses_def not_found_message_def)
  moreover have "sublist city (''Sorry, I couldn't find weather data for '' @ [apostrophe] @ city
                      @ [apostrophe] @ ''. Please check the city name.'')"
    using sublist_appendI [of city "''Sorry, I couldn't find weather data for '' @ [apostrophe]"
        "[apostrophe] @ ''. Please check the city name.''"]
    by simp
  moreover have "sublist (status_error_text pf (weather_request k city) r)
              (''Error fetching weather: '' @ status_error_text pf (weather_request k city) r)"
    by (rule sublist_append_leftI)
  ultimately show ?thesis by simp
qed

text \<open>
  Status 400 and status 503 for the city Paris.
\<close>

theorem get_weather_http_error_witness:
  "fst (get_weather \<lparr>repr_of = (\<lambda>v::unit py_value. ''''),
          status_error_text = (\<lambda>q r. ''Server error 503'')\<rparr>
          (\<lambda>q. Inr \<lparr>status_code = 400, json_result = Inl ''no body''\<rparr>)
          \<lparr>environ = [''WEATHER_API_KEY'' \<mapsto> ''abc123''], sent = []\<rparr>
          ''Paris'') =
     Inr (''Sorry, I couldn't find weather data for '' @ [CHR 0x27] @ ''Paris'' @ [CHR 0x27]
          @ ''. Please check the city name.'')
   \<and> fst (get_weather \<lparr>repr_of = (\<lambda>v::unit py_value. ''''),
          status_error_text = (\<lambda>q r. ''Server error 503'')\<rparr>
          (\<lambda>q. Inr \<lparr>status_code = 503, json_result = Inl ''no body''\<rparr>)
          \<lparr>environ = [''WEATHER_API_KEY'' \<mapsto> ''abc123''], sent = []\<rparr>
          ''Paris'') =
     Inr ''Error fetching weather: Server error 503''"
  using get_weather_http_error
    [where w = "\<lparr>environ = [''WEATHER_API_KEY'' \<mapsto> ''abc123''], sent = []\<rparr>"
       and k = "''abc123''"
       and net = "\<lambda>q. Inr \<lparr>status_code = 400, json_result = Inl ''no body''\<rparr>"
       and city = "''Paris''"
       and r = "\<lparr>status_code = 400, json_result = Inl ''no body''\<rparr>"
       and pf = "\<lparr>repr_of = (\<lambda>v::unit py_value. ''''),
          status_error_text = (\<lambda>q r. ''Server error 503'')\<rparr>"]
    get_weather_http_error
    [where w = "\<lparr>environ = [''WEATHER_API_KEY'' \<mapsto> ''abc123''], sent = []\<rparr>"
       and k = "''abc123''"
       and net = "\<lambda>q. Inr \<lparr>status_code = 503, json_result = Inl ''no body''\<rparr>"
       and city = "''Paris''"
       and r = "\<lparr>status_code = 503, json_result = Inl ''no body''\<rparr>"
       and pf = "\<lparr>repr_of = (\<lambda>v::unit py_value. ''''),
          status_error_text = (\<lambda>q r. ''Server error 503'')\<rparr>"]
  by (simp add: apostrophe_def)

text \<open>
  Claim C5. With a configured key, a failure of the transport (any subclass of
  \<^verbatim>\<open>httpx.RequestError\<close>: name lookup, refused connection, timeout) gives
  \<^verbatim>\<open>Network error: Could not connect to weather service.\<close> followed by the detail of the
  failure; the message differs from both messages for an HTTP status.
\<close>

theorem get_weather_transport_failure:
  assumes key: "environ w ''WEATHER_API_KEY'' = Some k" "k \<noteq> ''''"
      "k \<noteq> ''your_weather_api_key_here''"
    and fail: "net (weather_request k city) = Inl (RequestError cls detail)"
  shows "fst (get_weather pf net w city) =
           Inr (''Network error: Could not connect to weather service. '' @ detail)
         \<and> sublist ''Network error'' (''Network error: Could not connect to weather service. '' @ detail)
         \<and> sublist detail (''Network error: Could not connect to weather service. '' @ detail)
         \<and> ''Network error: Could not connect to weather service. '' @ detail
              \<noteq> ''Error fetching weather: '' @ status_text
         \<and> ''Network error: Could not connect to weather service. '' @ detail
              \<noteq> ''Sorry, I couldn't find weather data for '' @ [apostrophe] @ city'
                      @ [apostrophe] @ ''. Please check the city name.''"
proof -
  have k: "k \<noteq> placeholder_key" using key(3) by (simp add: placeholder_key_def)
  have "fst (get_weather pf net w city) =
          Inr (''Network error: Could not connect to weather service. '' @ detail)"
    using get_weather_result [OF key(1) key(2) k, of pf net city] fail
    by (simp add: except_clauses_def on_request_error_def)
  moreover have "sublist ''Network error''
      (''Network error'' @ '': Could not connect to weather service. '' @ detail)"
    by (rule sublist_append_rightI)
  moreover have "sublist detail (''Network error: Could not connect to weather service. '' @ detail)"
    by (rule sublist_append_leftI)
  ultimately show ?thesis by simp
qed

text \<open>
  A refused connection.
\<close>

theorem get_weather_transport_failure_witness:
  "fst (get_weather \<lparr>repr_of = (\<lambda>v::unit py_value. ''''), status_error_text = (\<lambda>q r. '''')\<rparr>
          (\<lambda>q. Inl (RequestError ConnectError ''[Errno 111] Connection refused''))
          \<lparr>environ = [''WEATHER_API_KEY'' \<mapsto> ''abc123''], sent = []\<rparr>
          ''Paris'') =
     Inr ''Network error: Could not connect to weather service. [Errno 111] Connection refused''"
  using get_weather_transport_failure
    [of "\<lparr>environ = [''WEATHER_API_KEY'' \<mapsto> ''abc123''], sent = []\<rparr>" "''abc123''"
        "\<lambda>q. Inl (RequestError ConnectError ''[Errno 111] Connection refused'')" "''Paris''"
        ConnectError "''[Errno 111] Connection refused''"
        "\<lparr>repr_of = (\<lambda>v::unit py_value. ''''), status_error_text = (\<lambda>q r. '''')\<rparr>"]
  by simp

text \<open>
  Claim C6. With a configured key and a 2xx status, a body that is not JSON, or a JSON
  value in which one of the seven expected subscripts fails, gives
  \<^verbatim>\<open>Unexpected error:\<close> followed by the detail: the text of the parse error, or the text
  of the exception raised by a failing subscript. Nothing is raised.
\<close>

theorem get_weather_malformed_body:
  assumes key: "environ w ''WEATHER_API_KEY'' = Some k" "k \<noteq> ''''"
      "k \<noteq> ''your_weather_api_key_here''"
    and resp: "net (weather_request k city) = Inr r" "200 \<le> status_code r" "status_code r \<le> 299"
    and bad: "(\<exists>msg. json_result r = Inl msg)
              \<or> (\<exists>data path e. json_result r = Inr data \<and> path \<in> set expected_fields
                    \<and> getitems data path = Inl e)"
  shows "\<exists>detail. fst (get_weather pf net w city) = Inr (''Unexpected error: '' @ detail)
           \<and> sublist detail (''Unexpected error: '' @ detail)
           \<and> (json_result r = Inl detail
                \<or> (\<exists>data path e. json_result r = Inr data \<and> path \<in> set expected_fields
                      \<and> getitems data path = Inl e \<and> detail = exception_str e))"
proof -
  have k: "k \<noteq> placeholder_key" using key(3) by (simp add: placeholder_key_def)
  have res: "fst (get_weather pf net w city) =
          try_except (bind_exc (response_json r) (format_weather pf)) (except_clauses city)"
    using get_weather_result [OF key(1) key(2) k, of pf net city] resp
    by (simp add: raise_for_status_def is_success_def)
  show ?thesis
  proof (cases "json_result r")
    case (Inl msg)
    then have "fst (get_weather pf net w city) = Inr (''Unexpected error: '' @ msg)"
      using res unexpected_handled [of "ValueError msg" city]
      by (simp add: response_json_def)
    moreover have "sublist msg (''Unexpected error: '' @ msg)"
      by (rule sublist_append_leftI)
    ultimately show ?thesis using Inl by blast
  next
    case (Inr data)
    with bad obtain path e where p: "path \<in> set expected_fields" "getitems data path = Inl e"
      by auto
    have "\<exists>e'. format_weather pf data = Inl e'"
    proof (cases "format_weather pf data")
      case (Inl e')
      then show ?thesis by simp
    next
      case (Inr s)
      from format_weather_Inr [OF this p(1)] p(2) show ?thesis by simp
    qed
    then obtain e' where f: "format_weather pf data = Inl e'" ..
    from format_weather_Inl [OF f] obtain path' where
      p': "path' \<in> set expected_fields" "getitems data path' = Inl e'" ..
    have "fst (get_weather pf net w city) = Inr (''Unexpected error: '' @ exception_str e')"
      using res Inr f unexpected_handled [of e' city] getitems_raises [OF p'(2)]
      by (auto simp add: response_json_def)
    moreover have "sublist (exception_str e') (''Unexpected error: '' @ exception_str e')"
      by (rule sublist_append_leftI)
    ultimately show ?thesis using Inr p' by blast
  qed
qed

text \<open>
  A body without \<^verbatim>\<open>location.country\<close>: the detail is the missing key.
\<close>

theorem get_weather_malformed_body_witness:
  "(\<exists>detail. fst (get_weather \<lparr>repr_of = (\<lambda>v::unit py_value. ''''), status_error_text = (\<lambda>q r. '''')\<rparr>
          (\<lambda>q. Inr \<lparr>status_code = 200, json_result = Inr (PDict
             [(''location'', PDict [(''name'', PStr ''Paris'')])] :: unit py_value)\<rparr>)
          \<lparr>environ = [''WEATHER_API_KEY'' \<mapsto> ''abc123''], sent = []\<rparr>
          ''Paris'') = Inr (''Unexpected error: '' @ detail))
   \<and> fst (get_weather \<lparr>repr_of = (\<lambda>v::unit py_value. ''''), status_error_text = (\<lambda>q r. '''')\<rparr>
          (\<lambda>q. Inr \<lparr>status_code = 200, json_result = Inr (PDict
             [(''location'', PDict [(''name'', PStr ''Paris'')])] :: unit py_value)\<rparr>)
          \<lparr>environ = [''WEATHER_API_KEY'' \<mapsto> ''abc123''], sent = []\<rparr>
          ''Paris'') = Inr (''Unexpected error: '' @ [CHR 0x27] @ ''country'' @ [CHR 0x27])"
proof -
  have bad: "(\<exists>msg. json_result \<lparr>status_code = 200, json_result = Inr (PDict
             [(''location'', PDict [(''name'', PStr ''Paris'')])] :: unit py_value)\<rparr> = Inl msg)
     \<or> (\<exists>data path e. json_result \<lparr>status_code = 200, json_result = Inr (PDict
             [(''location'', PDict [(''name'', PStr ''Paris'')])] :: unit py_value)\<rparr> = Inr data
           \<and> path \<in> set expected_fields \<and> getitems data path = Inl e)"
  proof (rule disjI2, intro exI conjI)
    show "json_result \<lparr>status_code = 200, json_result = Inr (PDict
             [(''location'', PDict [(''name'', PStr ''Paris'')])] :: unit py_value)\<rparr> =
        Inr (PDict [(''location'', PDict [(''name'', PStr ''Paris'')])])"
      by simp
    show "[''location'', ''country''] \<in> set expected_fields"
      by (simp add: expected_fields_def)
    show "getitems (PDict [(''location'', PDict [(''name'', PStr ''Paris'')])] :: unit py_value)
            [''location'', ''country''] = Inl (KeyError ''country'')"
      by simp
  qed
  have "\<exists>detail. fst (get_weather \<lparr>repr_of = (\<lambda>v::unit py_value. ''''), status_error_text = (\<lambda>q r. '''')\<rparr>
          (\<lambda>q. Inr \<lparr>status_code = 200, json_result = Inr (PDict
             [(''location'', PDict [(''name'', PStr ''Paris'')])] :: unit py_value)\<rparr>)
          \<lparr>environ = [''WEATHER_API_KEY'' \<mapsto> ''abc123''], sent = []\<rparr>
          ''Paris'') = Inr (''Unexpected error: '' @ detail)"
    using get_weather_malformed_body
      [of "\<lparr>environ = [''WEATHER_API_KEY'' \<mapsto> ''abc123''], sent = []\<rparr>" "''abc123''"
        "\<lambda>q. Inr \<lparr>status_code = 200, json_result = Inr (PDict
             [(''location'', PDict [(''name'', PStr ''Paris'')])] :: unit py_value)\<rparr>" "''Paris''" "\<lparr>status_code = 200, json_result = Inr (PDict
             [(''location'', PDict [(''name'', PStr ''Paris'')])] :: unit py_value)\<rparr>"
        "\<lparr>repr_of = (\<lambda>v::unit py_value. ''''), status_error_text = (\<lambda>q r. '''')\<rparr>",
        OF _ _ _ _ _ _ bad]
    by auto
  moreover have "fst (get_weather \<lparr>repr_of = (\<lambda>v::unit py_value. ''''), status_error_text = (\<lambda>q r. '''')\<rparr>
          (\<lambda>q. Inr \<lparr>status_code = 200, json_result = Inr (PDict
             [(''location'', PDict [(''name'', PStr ''Paris'')])] :: unit py_value)\<rparr>)
          \<lparr>environ = [''WEATHER_API_KEY'' \<mapsto> ''abc123''], sent = []\<rparr>
          ''Paris'') = Inr (''Unexpected error: '' @ [CHR 0x27] @ ''country'' @ [CHR 0x27])"
    by (simp add: get_weather_def os_getenv_def placeholder_key_def try_block_def httpx_get_def
          weather_request_def raise_for_status_def is_success_def response_json_def
          format_weather_def except_clauses_def on_exception_def apostrophe_def)
  ultimately show ?thesis by (rule conjI)
qed

text \<open>
  Claim C9. \<^verbatim>\<open>get_weather\<close> keeps no state between calls: two calls for the same city,
  with the same value of \<^verbatim>\<open>WEATHER_API_KEY\<close> and the same answer of the provider to the
  request, return the same result, whatever calls were made before each of them.
\<close>

theorem get_weather_stateless:
  assumes "environ w1 ''WEATHER_API_KEY'' = environ w2 ''WEATHER_API_KEY''"
    and "\<forall>k. net1 (weather_request k city) = net2 (weather_request k city)"
  shows "fst (get_weather pf net1 (get_weather_calls pf earlier1 w1) city) =
         fst (get_weather pf net2 (get_weather_calls pf earlier2 w2) city)"
proof (rule get_weather_result_cong)
  show "environ (get_weather_calls pf earlier1 w1) ''WEATHER_API_KEY'' =
        environ (get_weather_calls pf earlier2 w2) ''WEATHER_API_KEY''"
    using assms(1) by (simp add: get_weather_calls_environ)
next
  fix k
  show "net1 (weather_request k city) = net2 (weather_request k city)"
    using assms(2) by simp
qed

text \<open>
  The same call made first, and made after two other calls.
\<close>

theorem get_weather_stateless_witness:
  "fst (get_weather \<lparr>repr_of = (\<lambda>v::unit py_value. ''''),
             status_error_text = (\<lambda>q r. ''status'')\<rparr>
          (\<lambda>q. Inr \<lparr>status_code = 400, json_result = Inl ''no body''\<rparr>)
          (get_weather_calls \<lparr>repr_of = (\<lambda>v::unit py_value. ''''),
             status_error_text = (\<lambda>q r. ''status'')\<rparr>
             []
             \<lparr>environ = [''WEATHER_API_KEY'' \<mapsto> ''abc123''], sent = []\<rparr>)
          ''Paris'') =
   fst (get_weather \<lparr>repr_of = (\<lambda>v::unit py_value. ''''),
             status_error_text = (\<lambda>q r. ''status'')\<rparr>
          (\<lambda>q. Inr \<lparr>status_code = 400, json_result = Inl ''no body''\<rparr>)
          (get_weather_calls \<lparr>repr_of = (\<lambda>v::unit py_value. ''''),
             status_error_text = (\<lambda>q r. ''status'')\<rparr>
             [(\<lambda>q. Inl (RequestError ConnectTimeout ''timed out''), ''Tokyo''),
              (\<lambda>q. Inr \<lparr>status_code = 503, json_result = Inl ''no body''\<rparr>, ''Lima'')]
             \<lparr>environ = [''WEATHER_API_KEY'' \<mapsto> ''abc123''], sent = []\<rparr>)
          ''Paris'')"
  using get_weather_stateless
    [where ?w1.0 = "\<lparr>environ = [''WEATHER_API_KEY'' \<mapsto> ''abc123''], sent = []\<rparr>"
       and ?w2.0 = "\<lparr>environ = [''WEATHER_API_KEY'' \<mapsto> ''abc123''], sent = []\<rparr>"
       and ?net1.0 = "\<lambda>q. Inr \<lparr>status_code = 400, json_result = Inl ''no body''\<rparr>"
       and ?net2.0 = "\<lambda>q. Inr \<lparr>status_code = 400, json_result = Inl ''no body''\<rparr>"
       and city = "''Paris''"
       and pf = "\<lparr>repr_of = (\<lambda>v::unit py_value. ''''),
             status_error_text = (\<lambda>q r. ''status'')\<rparr>"
       and ?earlier1.0 = "[]"
       and ?earlier2.0 = "[(\<lambda>q. Inl (RequestError ConnectTimeout ''timed out''), ''Tokyo''),
              (\<lambda>q. Inr \<lparr>status_code = 503, json_result = Inl ''no body''\<rparr>, ''Lima'')]"]
  by simp

end
